theory Spec2Isabelle
  imports Complex_Main "HOL-Library.AList"
begin

section \<open>Common conventions\<close>

text \<open>
  The repository consists of three FastAPI services that keep their state in module-level
  Python containers: the ledger (\<^verbatim>\<open>backend/ledger/main.py\<close>), the translator
  (\<^verbatim>\<open>backend/translator/main.py\<close>) and the gateway (\<^verbatim>\<open>backend/gateway/main.py\<close>).
  Each request handler is modelled as a function from the request, the readings it takes from
  its environment (clock, UUID generator, key generator) and the service state to a pair of
  an outcome and the state after the call. The outcome is \<open>Inl e\<close> when the handler leaves
  through an exception and \<open>Inr r\<close> when it returns the response \<open>r\<close>. A handler has no
  \<^verbatim>\<open>await\<close> between the reads and writes of its own containers, so the event loop runs
  each of them without interleaving and one call is one state transition.

  A Python \<^verbatim>\<open>str\<close> is represented by the list of its UTF-8 bytes, so \<^verbatim>\<open>s.encode()\<close> is the
  identity and \<^verbatim>\<open>bytes\<close> and \<^verbatim>\<open>str\<close> share one type; a string with no UTF-8 encoding (a
  lone surrogate) has no representation. A \<^verbatim>\<open>dict\<close> is an association list in
  insertion order; \<^verbatim>\<open>d[k] = v\<close> is \<^const>\<open>AList.update\<close> (an existing key keeps its position,
  a new key goes to the end) and \<^verbatim>\<open>k in d\<close> is \<open>map_of d k \<noteq> None\<close>. The readings of
  \<^verbatim>\<open>time.time()\<close> are opaque values of type \<^typ>\<open>real\<close>; the code never computes with them.
\<close>

type_synonym bytes = string
type_synonym timestamp = real

datatype exn =
    HTTPException nat string      \<comment> \<open>\<^verbatim>\<open>raise HTTPException(status_code, detail)\<close>\<close>
  | BinasciiError                 \<comment> \<open>\<^verbatim>\<open>base64.b64decode\<close> rejects its argument\<close>
  | ValueError                    \<comment> \<open>a key constructor rejects its bytes\<close>
  | InvalidSignature              \<comment> \<open>\<^verbatim>\<open>public_key.verify\<close> rejects the signature\<close>
  | TransportError string         \<comment> \<open>\<^verbatim>\<open>httpx\<close> could not complete the call (refused, timed out)\<close>
  | JSONDecodeError               \<comment> \<open>\<^verbatim>\<open>response.json()\<close> on a body that is not JSON\<close>
  | KeyError string               \<comment> \<open>subscript with a missing key\<close>
  | TypeError                     \<comment> \<open>subscript or hashing of a value of the wrong type\<close>
  | AttributeError string         \<comment> \<open>\<^verbatim>\<open>.get\<close> on a value that is not a dict\<close>
  | UnboundLocalError string      \<comment> \<open>read of a local variable that was never assigned\<close>

text \<open>
  Truthiness of an \<^verbatim>\<open>Optional[str]\<close>: \<^verbatim>\<open>None\<close> and the empty string are false.
  \<open>if_truthy v\<close> is \<open>Some s\<close> when \<open>v\<close> is the true string \<open>s\<close> and \<open>None\<close> when \<open>v\<close>
  is false, so that a model of \<^verbatim>\<open>if v: ... v ...\<close> reads the string only where it exists.
\<close>

fun if_truthy :: "string option \<Rightarrow> string option" where
  "if_truthy None = None"
| "if_truthy (Some s) = (if s = [] then None else Some s)"

section \<open>The ledger service\<close>

subsection \<open>The cryptography and base64 libraries\<close>

text \<open>
  The ledger calls \<^verbatim>\<open>cryptography\<close>'s Ed25519 classes, \<^verbatim>\<open>base64\<close> and \<^verbatim>\<open>hashlib\<close>. They are
  not code of this repository, so the model takes them as a parameter: a record of the
  operations the handlers call. A constructor or decoder that raises returns \<open>None\<close>;
  \<open>verify\<close> returns \<open>False\<close> where the library raises \<^verbatim>\<open>InvalidSignature\<close>.
\<close>

record ('sk, 'pk) crypto =
  b64encode :: "bytes \<Rightarrow> string"
  b64decode :: "string \<Rightarrow> bytes option"
  public_key_of :: "'sk \<Rightarrow> 'pk"
  private_bytes :: "'sk \<Rightarrow> bytes"
  public_bytes :: "'pk \<Rightarrow> bytes"
  from_private_bytes :: "bytes \<Rightarrow> 'sk option"
  from_public_bytes :: "bytes \<Rightarrow> 'pk option"
  sign :: "'sk \<Rightarrow> bytes \<Rightarrow> bytes"
  verify :: "'pk \<Rightarrow> bytes \<Rightarrow> bytes \<Rightarrow> bool"
  sha256_hex :: "bytes \<Rightarrow> string"

subsection \<open>Data\<close>

text \<open>The request models (\<^verbatim>\<open>pydantic.BaseModel\<close> classes of the ledger).\<close>

record NodeRegistration =
  reg_node_id :: string
  reg_public_key :: "string option"

record LedgerEntry =
  entry_data :: string
  entry_node_id :: string
  entry_signature :: "string option"

record SignRequest =
  sign_data_of :: string
  sign_node_id :: string

text \<open>A value of \<^verbatim>\<open>node_keys\<close> and an element of \<^verbatim>\<open>ledger_entries\<close>.\<close>

record key_info =
  public_key :: string
  private_key :: "string option"
  registered_at :: timestamp

record ledger_record =
  le_id :: string
  le_data :: string
  le_data_hash :: string
  le_node_id :: string
  le_signature :: "string option"
  le_verified :: bool
  le_timestamp :: timestamp
  le_block_height :: nat

record ledger_state =
  ledger_entries :: "ledger_record list"
  node_keys :: "(string \<times> key_info) list"

definition ledger_init :: ledger_state where
  "ledger_init = \<lparr>ledger_entries = [], node_keys = []\<rparr>"

text \<open>The responses of the handlers.\<close>

record register_response =
  rr_node_id :: string
  rr_public_key :: string
  rr_private_key :: "string option"
  rr_status :: string

record sign_response =
  sr_data :: string
  sr_signature :: string
  sr_node_id :: string

record verify_response =
  vr_valid :: bool
  vr_node_id :: string

record append_response =
  ar_entry_id :: string
  ar_block_height :: nat
  ar_verified :: bool
  ar_data_hash :: string

record node_listing =
  nl_node_id :: string
  nl_public_key :: string
  nl_registered_at :: timestamp

record ledger_page =
  lp_entries :: "ledger_record list"
  lp_total :: nat
  lp_limit :: int
  lp_offset :: int

record ledger_metrics =
  lm_total_nodes :: nat
  lm_total_entries :: nat
  lm_verified_entries :: nat

subsection \<open>Handlers\<close>

text \<open>
  \<^verbatim>\<open>register_node\<close>. \<open>fresh\<close> is the key that \<^verbatim>\<open>Ed25519PrivateKey.generate()\<close> returns when
  it is called and \<open>now\<close> the reading of the clock. The detail of the 400 response ends
  with the library's own message, which the model leaves out.
\<close>

definition decode_public_key :: "('sk, 'pk) crypto \<Rightarrow> string \<Rightarrow> exn + 'pk" where
  "decode_public_key c s =
     (case b64decode c s of
        None \<Rightarrow> Inl BinasciiError
      | Some public_key_bytes \<Rightarrow>
          (case from_public_bytes c public_key_bytes of
             None \<Rightarrow> Inl ValueError
           | Some pk \<Rightarrow> Inr pk))"

definition store_key ::
  "string \<Rightarrow> string \<Rightarrow> string option \<Rightarrow> timestamp \<Rightarrow> ledger_state
     \<Rightarrow> (exn + register_response) \<times> ledger_state" where
  "store_key nid pub priv now st =
     (Inr \<lparr>rr_node_id = nid, rr_public_key = pub, rr_private_key = priv,
           rr_status = ''registered''\<rparr>,
      st\<lparr>node_keys := AList.update nid
            \<lparr>public_key = pub, private_key = priv, registered_at = now\<rparr> (node_keys st)\<rparr>)"

definition register_node ::
  "('sk, 'pk) crypto \<Rightarrow> 'sk \<Rightarrow> timestamp \<Rightarrow> NodeRegistration \<Rightarrow> ledger_state
     \<Rightarrow> (exn + register_response) \<times> ledger_state" where
  "register_node c fresh now registration st =
     (case if_truthy (reg_public_key registration) of
        Some supplied \<Rightarrow>
          (case decode_public_key c supplied of
             Inl e \<Rightarrow> (Inl (HTTPException 400 ''Invalid public key''), st)
           | Inr pk \<Rightarrow>
               store_key (reg_node_id registration)
                 (b64encode c (public_bytes c pk)) None now st)
      | None \<Rightarrow>
          store_key (reg_node_id registration)
            (b64encode c (public_bytes c (public_key_of c fresh)))
            (Some (b64encode c (private_bytes c fresh))) now st)"

text \<open>\<^verbatim>\<open>get_registered_nodes\<close>.\<close>

definition get_registered_nodes :: "ledger_state \<Rightarrow> (exn + node_listing list) \<times> ledger_state" where
  "get_registered_nodes st =
     (Inr (map (\<lambda>(node_id, info).
              \<lparr>nl_node_id = node_id, nl_public_key = public_key info,
               nl_registered_at = registered_at info\<rparr>) (node_keys st)), st)"

text \<open>
  \<^verbatim>\<open>sign_data\<close>. The body of its \<^verbatim>\<open>try\<close> is \<open>try_sign\<close>; every exception becomes a 500, whose
  detail ends with the text of the exception, which the model leaves out.
\<close>

definition try_sign :: "('sk, 'pk) crypto \<Rightarrow> string \<Rightarrow> string \<Rightarrow> exn + string" where
  "try_sign c private_key_b64 dat =
     (case b64decode c private_key_b64 of
        None \<Rightarrow> Inl BinasciiError
      | Some private_key_bytes \<Rightarrow>
          (case from_private_bytes c private_key_bytes of
             None \<Rightarrow> Inl ValueError
           | Some sk \<Rightarrow> Inr (b64encode c (sign c sk dat))))"

definition sign_data ::
  "('sk, 'pk) crypto \<Rightarrow> SignRequest \<Rightarrow> ledger_state \<Rightarrow> (exn + sign_response) \<times> ledger_state" where
  "sign_data c request st =
     (case map_of (node_keys st) (sign_node_id request) of
        None \<Rightarrow> (Inl (HTTPException 404 ''Node not registered''), st)
      | Some node_info \<Rightarrow>
          (case if_truthy (private_key node_info) of
             None \<Rightarrow> (Inl (HTTPException 400 ''Private key not available for this node''), st)
           | Some private_key_b64 \<Rightarrow>
               (case try_sign c private_key_b64 (sign_data_of request) of
                  Inl e \<Rightarrow> (Inl (HTTPException 500 ''Signing failed''), st)
                | Inr signature_b64 \<Rightarrow>
                    (Inr \<lparr>sr_data = sign_data_of request, sr_signature = signature_b64,
                          sr_node_id = sign_node_id request\<rparr>, st))))"

text \<open>
  The signature check that \<^verbatim>\<open>verify_signature\<close> and \<^verbatim>\<open>append_to_ledger\<close> both run inside a
  \<^verbatim>\<open>try\<close>: each statement that can raise is a branch.
\<close>

definition try_verify :: "('sk, 'pk) crypto \<Rightarrow> string \<Rightarrow> string \<Rightarrow> string \<Rightarrow> exn + unit" where
  "try_verify c public_key_b64 signature_b64 dat =
     (case b64decode c public_key_b64 of
        None \<Rightarrow> Inl BinasciiError
      | Some public_key_bytes \<Rightarrow>
          (case from_public_bytes c public_key_bytes of
             None \<Rightarrow> Inl ValueError
           | Some pk \<Rightarrow>
               (case b64decode c signature_b64 of
                  None \<Rightarrow> Inl BinasciiError
                | Some signature_bytes \<Rightarrow>
                    if verify c pk signature_bytes dat then Inr () else Inl InvalidSignature)))"

definition verify_signature ::
  "('sk, 'pk) crypto \<Rightarrow> string \<Rightarrow> string \<Rightarrow> string \<Rightarrow> ledger_state
     \<Rightarrow> (exn + verify_response) \<times> ledger_state" where
  "verify_signature c dat signature_b64 nid st =
     (case map_of (node_keys st) nid of
        None \<Rightarrow> (Inl (HTTPException 404 ''Node not registered''), st)
      | Some node_info \<Rightarrow>
          (case try_verify c (public_key node_info) signature_b64 dat of
             Inr _ \<Rightarrow> (Inr \<lparr>vr_valid = True, vr_node_id = nid\<rparr>, st)
           | Inl _ \<Rightarrow> (Inr \<lparr>vr_valid = False, vr_node_id = nid\<rparr>, st)))"

text \<open>
  \<^verbatim>\<open>append_to_ledger\<close>. \<open>entry_id\<close> is the value of \<^verbatim>\<open>str(uuid.uuid4())\<close> and \<open>now\<close> the
  reading of the clock. \<open>append_verified\<close> is the computation of the local \<^verbatim>\<open>verified\<close>.
\<close>

definition append_verified :: "('sk, 'pk) crypto \<Rightarrow> LedgerEntry \<Rightarrow> ledger_state \<Rightarrow> bool" where
  "append_verified c entry st =
     (case if_truthy (entry_signature entry) of
        None \<Rightarrow> False
      | Some signature_b64 \<Rightarrow>
          (case map_of (node_keys st) (entry_node_id entry) of
             None \<Rightarrow> False
           | Some node_info \<Rightarrow>
               (case try_verify c (public_key node_info) signature_b64 (entry_data entry) of
                  Inr _ \<Rightarrow> True
                | Inl _ \<Rightarrow> False)))"

definition append_to_ledger ::
  "('sk, 'pk) crypto \<Rightarrow> string \<Rightarrow> timestamp \<Rightarrow> LedgerEntry \<Rightarrow> ledger_state
     \<Rightarrow> (exn + append_response) \<times> ledger_state" where
  "append_to_ledger c entry_id now entry st =
     (let verified = append_verified c entry st;
          data_hash = sha256_hex c (entry_data entry);
          ledger_entry =
            \<lparr>le_id = entry_id, le_data = entry_data entry, le_data_hash = data_hash,
             le_node_id = entry_node_id entry, le_signature = entry_signature entry,
             le_verified = verified, le_timestamp = now,
             le_block_height = length (ledger_entries st)\<rparr>
      in (Inr \<lparr>ar_entry_id = entry_id, ar_block_height = le_block_height ledger_entry,
               ar_verified = verified, ar_data_hash = data_hash\<rparr>,
          st\<lparr>ledger_entries := ledger_entries st @ [ledger_entry]\<rparr>))"

text \<open>
  \<^verbatim>\<open>get_ledger\<close> slices with Python's rules: a negative bound counts from the end and
  every bound is clipped to the list.
\<close>

definition slice_bound :: "nat \<Rightarrow> int \<Rightarrow> nat" where
  "slice_bound n i = (if i < 0 then nat (max (i + int n) 0) else min (nat i) n)"

definition py_slice :: "'a list \<Rightarrow> int \<Rightarrow> int \<Rightarrow> 'a list" where
  "py_slice xs lo hi =
     (let a = slice_bound (length xs) lo; b = slice_bound (length xs) hi
      in take (b - a) (drop a xs))"

definition get_ledger :: "int \<Rightarrow> int \<Rightarrow> ledger_state \<Rightarrow> (exn + ledger_page) \<times> ledger_state" where
  "get_ledger limit offset st =
     (Inr \<lparr>lp_entries = py_slice (ledger_entries st) offset (offset + limit),
           lp_total = length (ledger_entries st), lp_limit = limit, lp_offset = offset\<rparr>, st)"

definition get_ledger_entry :: "string \<Rightarrow> ledger_state \<Rightarrow> (exn + ledger_record) \<times> ledger_state" where
  "get_ledger_entry entry_id st =
     (case find (\<lambda>entry. le_id entry = entry_id) (ledger_entries st) of
        Some entry \<Rightarrow> (Inr entry, st)
      | None \<Rightarrow> (Inl (HTTPException 404 ''Entry not found''), st))"

definition get_metrics :: "ledger_state \<Rightarrow> (exn + ledger_metrics) \<times> ledger_state" where
  "get_metrics st =
     (Inr \<lparr>lm_total_nodes = length (node_keys st),
           lm_total_entries = length (ledger_entries st),
           lm_verified_entries = length (filter le_verified (ledger_entries st))\<rparr>, st)"

subsection \<open>Histories of the ledger service\<close>

text \<open>
  One value of \<open>ledger_op\<close> is one request to the service together with the readings its
  handler takes from the environment. \<open>ledger_step\<close> is the state after the request and
  \<open>ledger_run\<close> the state after a sequence of requests, served one after the other.
\<close>

datatype 'sk ledger_op =
    Register 'sk timestamp NodeRegistration
  | GetNodes
  | Sign SignRequest
  | Verify string string string
  | Append string timestamp LedgerEntry
  | GetLedger int int
  | GetLedgerEntry string
  | GetMetrics

fun ledger_step :: "('sk, 'pk) crypto \<Rightarrow> 'sk ledger_op \<Rightarrow> ledger_state \<Rightarrow> ledger_state" where
  "ledger_step c (Register fresh now registration) st = snd (register_node c fresh now registration st)"
| "ledger_step c GetNodes st = snd (get_registered_nodes st)"
| "ledger_step c (Sign request) st = snd (sign_data c request st)"
| "ledger_step c (Verify dat sg nid) st = snd (verify_signature c dat sg nid st)"
| "ledger_step c (Append entry_id now entry) st = snd (append_to_ledger c entry_id now entry st)"
| "ledger_step c (GetLedger limit offset) st = snd (get_ledger limit offset st)"
| "ledger_step c (GetLedgerEntry entry_id) st = snd (get_ledger_entry entry_id st)"
| "ledger_step c GetMetrics st = snd (get_metrics st)"

definition ledger_run :: "('sk, 'pk) crypto \<Rightarrow> 'sk ledger_op list \<Rightarrow> ledger_state \<Rightarrow> ledger_state" where
  "ledger_run c ops st = fold (ledger_step c) ops st"

fun is_append :: "'sk ledger_op \<Rightarrow> bool" where
  "is_append (Append entry_id now entry) = True"
| "is_append _ = False"

subsection \<open>Contracts of the libraries and a small instance\<close>

text \<open>
  What the handlers rely on from the libraries: \<^verbatim>\<open>b64decode\<close> inverts \<^verbatim>\<open>b64encode\<close>, a key
  is rebuilt from its raw bytes, the base64 text of a private key or of a signature is not
  empty (they encode 32 and 64 bytes), and a signature made with a private key verifies
  under the matching public key over the same message.
\<close>

definition crypto_ok :: "('sk, 'pk) crypto \<Rightarrow> bool" where
  "crypto_ok c \<longleftrightarrow>
     (\<forall>b. b64decode c (b64encode c b) = Some b)
   \<and> (\<forall>sk. from_private_bytes c (private_bytes c sk) = Some sk)
   \<and> (\<forall>pk. from_public_bytes c (public_bytes c pk) = Some pk)
   \<and> (\<forall>sk. b64encode c (private_bytes c sk) \<noteq> [])
   \<and> (\<forall>sk m. b64encode c (sign c sk m) \<noteq> [])
   \<and> (\<forall>sk m. verify c (public_key_of c sk) (sign c sk m) m)"

text \<open>
  The key table of the ledger holds, for every node with a stored private key, the two
  halves of one generated key pair.
\<close>

definition key_inv :: "('sk, 'pk) crypto \<Rightarrow> ledger_state \<Rightarrow> bool" where
  "key_inv c st \<longleftrightarrow>
     (\<forall>nid info s. map_of (node_keys st) nid = Some info \<and> private_key info = Some s \<longrightarrow>
        (\<exists>sk. s = b64encode c (private_bytes c sk)
            \<and> public_key info = b64encode c (public_bytes c (public_key_of c sk))))"

text \<open>
  \<open>demo_crypto\<close> is a small instance of the library record on which the model can be run:
  a key is one byte, the public key equals the private key, a signature is the key followed
  by the message, and the base64 text of \<open>b\<close> is \<open>b\<close> behind the letter \<open>b\<close>. It satisfies
  \<open>crypto_ok\<close> and stands in for the real libraries only where a concrete run is needed.
\<close>

definition demo_crypto :: "(char, char) crypto" where
  "demo_crypto =
     \<lparr>b64encode = (\<lambda>b. CHR ''b'' # b),
      b64decode = (\<lambda>s. case s of [] \<Rightarrow> None | t # b \<Rightarrow> if t = CHR ''b'' then Some b else None),
      public_key_of = (\<lambda>sk. sk),
      private_bytes = (\<lambda>sk. [sk]),
      public_bytes = (\<lambda>pk. [pk]),
      from_private_bytes = (\<lambda>b. case b of [k] \<Rightarrow> Some k | _ \<Rightarrow> None),
      from_public_bytes = (\<lambda>b. case b of [k] \<Rightarrow> Some k | _ \<Rightarrow> None),
      sign = (\<lambda>sk m. sk # m),
      verify = (\<lambda>pk s m. s = pk # m),
      sha256_hex = (\<lambda>m. ''h'' @ m)\<rparr>"

section \<open>JSON values\<close>

text \<open>
  The payloads the services exchange. An object is an association list in the order of its
  keys. Numbers are restricted to integers: no handler computes with a number of a payload.
\<close>

datatype json =
    JNull
  | JBool bool
  | JNum int
  | JStr string
  | JArr "json list"
  | JObj "(string \<times> json) list"

text \<open>Python's truth value of a decoded JSON value, and \<^verbatim>\<open>d.get(k)\<close> on a decoded object.\<close>

fun json_truthy :: "json \<Rightarrow> bool" where
  "json_truthy JNull = False"
| "json_truthy (JBool b) = b"
| "json_truthy (JNum n) = (n \<noteq> 0)"
| "json_truthy (JStr s) = (s \<noteq> [])"
| "json_truthy (JArr xs) = (xs \<noteq> [])"
| "json_truthy (JObj kvs) = (kvs \<noteq> [])"


fun opt_str :: "string option \<Rightarrow> json" where
  "opt_str None = JNull"
| "opt_str (Some s) = JStr s"

section \<open>The translator service\<close>

subsection \<open>Data\<close>


record TelemetryEvent =
  ev_event_type :: string
  ev_node_id :: string
  ev_data :: "(string \<times> json) list"


text \<open>A value of \<^verbatim>\<open>schema_mappings\<close> and the three shapes of an element of \<^verbatim>\<open>telemetry_data\<close>.\<close>

record mapping_record =
  mr_id :: string
  mr_source_schema :: string
  mr_target_schema :: string
  mr_mapping_rules :: "(string \<times> json) list"
  mr_created_at :: timestamp

datatype telemetry_entry =
    SchemaRegistered timestamp string string string
  | DataTransformed timestamp string string string nat
  | Logged string string string "(string \<times> json) list" timestamp

record translator_state =
  telemetry_data :: "telemetry_entry list"
  schema_mappings :: "(string \<times> mapping_record) list"



subsection \<open>Handlers\<close>





text \<open>\<^verbatim>\<open>log_telemetry\<close>; \<open>event_id\<close> is the UUID drawn.\<close>

definition log_telemetry ::
  "string \<Rightarrow> timestamp \<Rightarrow> TelemetryEvent \<Rightarrow> translator_state
     \<Rightarrow> (exn + string) \<times> translator_state" where
  "log_telemetry event_id now event st =
     (Inr event_id,
      st\<lparr>telemetry_data := telemetry_data st @
            [Logged event_id (ev_event_type event) (ev_node_id event) (ev_data event) now]\<rparr>)"




section \<open>The gateway service\<close>

subsection \<open>The collaborators\<close>

text \<open>
  The gateway reaches the translator and the ledger through \<^verbatim>\<open>httpx\<close>. A call either raises
  (the collaborator is unreachable or the call times out) or returns a response with a
  status code and a body; \<open>None\<close> is a body that \<^verbatim>\<open>response.json()\<close> cannot decode. The
  collaborators are a state machine of an arbitrary state type \<open>'w\<close>: \<open>http_post\<close> takes the
  URL, the JSON sent and the state of the collaborators, and gives the result of the call and
  their state after it. The record also holds the two library functions the gateway calls,
  \<^verbatim>\<open>json.dumps(..., sort_keys=True)\<close> and \<^verbatim>\<open>hashlib.sha256(...).hexdigest()\<close>.
\<close>

datatype http_result = Raises exn | Response nat "json option"

record 'w gateway_env =
  http_post :: "string \<Rightarrow> json \<Rightarrow> 'w \<Rightarrow> http_result \<times> 'w"
  dumps_sorted :: "json \<Rightarrow> string"
  sha256_hexdigest :: "string \<Rightarrow> string"

definition TRANSLATOR_URL :: string where
  "TRANSLATOR_URL = ''http://localhost:8081''"

definition LEDGER_URL :: string where
  "LEDGER_URL = ''http://localhost:8082''"

text \<open>\<^verbatim>\<open>response.json()[key]\<close>: every way the expression raises is a branch.\<close>

fun subscript :: "json option \<Rightarrow> string \<Rightarrow> exn + json" where
  "subscript None key = Inl JSONDecodeError"
| "subscript (Some (JObj kvs)) key =
     (case map_of kvs key of None \<Rightarrow> Inl (KeyError key) | Some v \<Rightarrow> Inr v)"
| "subscript (Some _) key = Inl TypeError"

subsection \<open>Data\<close>


record Message =
  from_node :: string
  to_node :: string
  message_type :: string
  msg_data :: "(string \<times> json) list"
  msg_schema :: "string option"

record RouteRequest =
  message :: Message
  transform_schema :: "string option"
  commit_to_ledger :: bool

text \<open>
  A value of \<^verbatim>\<open>registered_nodes\<close>. The two key fields hold whatever the ledger's response
  carried (\<^verbatim>\<open>ledger_data.get(...)\<close>), \<open>JNull\<close> for \<^verbatim>\<open>None\<close>.
\<close>

record node_record =
  nr_node_id :: string
  nr_node_type :: string
  nr_capabilities :: "string list"
  nr_endpoint :: "string option"
  nr_public_key :: json
  nr_private_key :: json
  nr_registered_at :: timestamp
  nr_status :: string

text \<open>An element of \<^verbatim>\<open>steps\<close>; only the commit step has the key \<^verbatim>\<open>ledger_entry_id\<close>.\<close>

record step_record =
  step_name :: string
  step_status :: string
  step_timestamp :: timestamp
  step_ledger_entry_id :: "json option"

text \<open>
  An element of \<^verbatim>\<open>message_queue\<close>. The keys that only one of the two endings sets are
  options: \<open>None\<close> is an absent key, \<open>Some JNull\<close> a key holding \<^verbatim>\<open>None\<close>. \<open>me_error\<close> holds
  the exception whose text \<^verbatim>\<open>str(e)\<close> the code stores.
\<close>

record message_entry =
  me_id :: string
  me_hash :: string
  me_from_node :: string
  me_to_node :: string
  me_message_type :: string
  me_data :: "(string \<times> json) list"
  me_schema :: "string option"
  me_status :: string
  me_created_at :: timestamp
  me_steps :: "step_record list"
  me_transformed_data :: "json option"
  me_signature :: "json option"
  me_ledger_entry_id :: "json option"
  me_completed_at :: "timestamp option"
  me_error :: "exn option"
  me_failed_at :: "timestamp option"

record gateway_state =
  registered_nodes :: "(string \<times> node_record) list"
  message_queue :: "message_entry list"
  routing_table :: "(string \<times> string list) list"

definition gateway_init :: gateway_state where
  "gateway_init = \<lparr>registered_nodes = [], message_queue = [], routing_table = []\<rparr>"


record send_response =
  sp_message_id :: string
  sp_status :: string
  sp_hash :: string
  sp_steps :: "step_record list"
  sp_ledger_entry_id :: json

subsection \<open>Registering a node\<close>



subsection \<open>Sending a message\<close>

text \<open>
  The readings \<^verbatim>\<open>send_message\<close> takes from its environment: the UUID and the clock at each
  place the code reads it.
\<close>

record send_readings =
  rd_message_id :: string
  rd_created :: timestamp
  rd_transform :: timestamp
  rd_sign :: timestamp
  rd_commit :: timestamp
  rd_end :: timestamp

text \<open>\<^verbatim>\<open>message.dict()\<close>.\<close>

definition message_dict :: "Message \<Rightarrow> json" where
  "message_dict m =
     JObj [(''from_node'', JStr (from_node m)), (''to_node'', JStr (to_node m)),
           (''message_type'', JStr (message_type m)), (''data'', JObj (msg_data m)),
           (''schema'', opt_str (msg_schema m))]"

text \<open>
  The local variables of the \<^verbatim>\<open>try\<close> block that outlive it. \<open>pl_ledger_entry_id\<close> is \<open>None\<close>
  while the local \<^verbatim>\<open>ledger_entry_id\<close> is not yet assigned.
\<close>

record pipeline_locals =
  pl_steps :: "step_record list"
  pl_transformed_data :: json
  pl_signature :: json
  pl_ledger_entry_id :: "json option"

definition completed_step :: "string \<Rightarrow> timestamp \<Rightarrow> json option \<Rightarrow> step_record" where
  "completed_step name t entry_id =
     \<lparr>step_name = name, step_status = ''completed'', step_timestamp = t,
      step_ledger_entry_id = entry_id\<rparr>"

text \<open>
  Each step of the pipeline takes the locals and the collaborators' state and returns the
  exception it raised, if any, with the locals and the collaborators' state it leaves.
\<close>

definition transform_step ::
  "'w gateway_env \<Rightarrow> send_readings \<Rightarrow> RouteRequest \<Rightarrow> pipeline_locals \<times> 'w
     \<Rightarrow> exn option \<times> pipeline_locals \<times> 'w" where
  "transform_step env rd route_request = (\<lambda>(l, w).
     (case (if_truthy (transform_schema route_request),
            if_truthy (msg_schema (message route_request))) of
        (Some target, Some source) \<Rightarrow>
          (case http_post env (TRANSLATOR_URL @ ''/transform'')
                  (JObj [(''data'', JObj (msg_data (message route_request))),
                         (''source_schema'', JStr source),
                         (''target_schema'', JStr target)]) w of
             (Raises e, w1) \<Rightarrow> (Some e, l, w1)
           | (Response status_code body, w1) \<Rightarrow>
               if status_code = 200 then
                 (case subscript body ''transformed_data'' of
                    Inl e \<Rightarrow> (Some e, l, w1)
                  | Inr v \<Rightarrow>
                      (None,
                       l\<lparr>pl_transformed_data := v,
                         pl_steps := pl_steps l @
                           [completed_step ''transform'' (rd_transform rd) None]\<rparr>,
                       w1))
               else (None, l, w1))
      | _ \<Rightarrow> (None, l, w)))"

definition sign_step ::
  "'w gateway_env \<Rightarrow> send_readings \<Rightarrow> RouteRequest \<Rightarrow> gateway_state \<Rightarrow> pipeline_locals \<times> 'w
     \<Rightarrow> exn option \<times> pipeline_locals \<times> 'w" where
  "sign_step env rd route_request g = (\<lambda>(l, w).
     (case map_of (registered_nodes g) (from_node (message route_request)) of
        None \<Rightarrow> (Some (KeyError (from_node (message route_request))), l, w)
      | Some sender_node \<Rightarrow>
          if json_truthy (nr_private_key sender_node) then
            (case http_post env (LEDGER_URL @ ''/sign'')
                    (JObj [(''data'', JStr (dumps_sorted env (pl_transformed_data l))),
                           (''node_id'', JStr (from_node (message route_request)))]) w of
               (Raises e, w1) \<Rightarrow> (Some e, l, w1)
             | (Response status_code body, w1) \<Rightarrow>
                 if status_code = 200 then
                   (case subscript body ''signature'' of
                      Inl e \<Rightarrow> (Some e, l, w1)
                    | Inr v \<Rightarrow>
                        (None,
                         l\<lparr>pl_signature := v,
                           pl_steps := pl_steps l @
                             [completed_step ''sign'' (rd_sign rd) None]\<rparr>,
                         w1))
                 else (None, l, w1))
          else (None, l, w)))"

definition ledger_bundle :: "send_readings \<Rightarrow> RouteRequest \<Rightarrow> string \<Rightarrow> json \<Rightarrow> json" where
  "ledger_bundle rd route_request message_hash transformed_data =
     JObj [(''message_id'', JStr (rd_message_id rd)),
           (''from_node'', JStr (from_node (message route_request))),
           (''to_node'', JStr (to_node (message route_request))),
           (''message_type'', JStr (message_type (message route_request))),
           (''hash'', JStr message_hash),
           (''transformed_data'', transformed_data)]"

definition commit_step ::
  "'w gateway_env \<Rightarrow> send_readings \<Rightarrow> RouteRequest \<Rightarrow> string \<Rightarrow> pipeline_locals \<times> 'w
     \<Rightarrow> exn option \<times> pipeline_locals \<times> 'w" where
  "commit_step env rd route_request message_hash = (\<lambda>(l0, w).
     (let l = l0\<lparr>pl_ledger_entry_id := Some JNull\<rparr> in
      if commit_to_ledger route_request then
        (case http_post env (LEDGER_URL @ ''/ledger/append'')
                (JObj [(''data'', JStr (dumps_sorted env
                          (ledger_bundle rd route_request message_hash (pl_transformed_data l)))),
                       (''node_id'', JStr (from_node (message route_request))),
                       (''signature'', pl_signature l)]) w of
           (Raises e, w1) \<Rightarrow> (Some e, l, w1)
         | (Response status_code body, w1) \<Rightarrow>
             if status_code = 200 then
               (case subscript body ''entry_id'' of
                  Inl e \<Rightarrow> (Some e, l, w1)
                | Inr v \<Rightarrow>
                    (None,
                     l\<lparr>pl_ledger_entry_id := Some v,
                       pl_steps := pl_steps l @
                         [completed_step ''commit_ledger'' (rd_commit rd) (Some v)]\<rparr>,
                     w1))
             else (None, l, w1))
      else (None, l, w)))"

definition notify_step ::
  "'w gateway_env \<Rightarrow> send_readings \<Rightarrow> RouteRequest \<Rightarrow> string \<Rightarrow> pipeline_locals \<times> 'w
     \<Rightarrow> exn option \<times> pipeline_locals \<times> 'w" where
  "notify_step env rd route_request message_hash = (\<lambda>(l, w).
     (case http_post env (TRANSLATOR_URL @ ''/telemetry'')
             (JObj [(''event_type'', JStr ''message_routed''),
                    (''node_id'', JStr (from_node (message route_request))),
                    (''data'', JObj [(''message_id'', JStr (rd_message_id rd)),
                                     (''to_node'', JStr (to_node (message route_request))),
                                     (''message_type'', JStr (message_type (message route_request))),
                                     (''hash'', JStr message_hash)])]) w of
        (Raises e, w1) \<Rightarrow> (Some e, l, w1)
      | (Response status_code body, w1) \<Rightarrow> (None, l, w1)))"

text \<open>Sequencing inside the \<^verbatim>\<open>try\<close>: a step runs only if none before it raised.\<close>

definition and_then ::
  "(pipeline_locals \<times> 'w \<Rightarrow> exn option \<times> pipeline_locals \<times> 'w)
     \<Rightarrow> (pipeline_locals \<times> 'w \<Rightarrow> exn option \<times> pipeline_locals \<times> 'w)
     \<Rightarrow> pipeline_locals \<times> 'w \<Rightarrow> exn option \<times> pipeline_locals \<times> 'w" where
  "and_then first second = (\<lambda>lw.
     (case first lw of
        (Some e, l1, w1) \<Rightarrow> (Some e, l1, w1)
      | (None, l1, w1) \<Rightarrow> second (l1, w1)))"

definition message_hash_of :: "'w gateway_env \<Rightarrow> Message \<Rightarrow> string" where
  "message_hash_of env m = sha256_hexdigest env (dumps_sorted env (message_dict m))"

definition initial_locals :: "RouteRequest \<Rightarrow> pipeline_locals" where
  "initial_locals route_request =
     \<lparr>pl_steps = [], pl_transformed_data = JObj (msg_data (message route_request)),
      pl_signature = JNull, pl_ledger_entry_id = None\<rparr>"

definition pipeline ::
  "'w gateway_env \<Rightarrow> send_readings \<Rightarrow> RouteRequest \<Rightarrow> gateway_state \<Rightarrow> 'w
     \<Rightarrow> exn option \<times> pipeline_locals \<times> 'w" where
  "pipeline env rd route_request g w =
     and_then (transform_step env rd route_request)
       (and_then (sign_step env rd route_request g)
          (and_then (commit_step env rd route_request (message_hash_of env (message route_request)))
             (notify_step env rd route_request (message_hash_of env (message route_request)))))
       (initial_locals route_request, w)"

text \<open>The entry as the two endings of the \<^verbatim>\<open>try\<close> leave it.\<close>

definition finish_entry ::
  "'w gateway_env \<Rightarrow> send_readings \<Rightarrow> RouteRequest \<Rightarrow> exn option \<Rightarrow> pipeline_locals
     \<Rightarrow> message_entry" where
  "finish_entry env rd route_request raised l =
     (let m = message route_request;
          entry =
            \<lparr>me_id = rd_message_id rd, me_hash = message_hash_of env m,
             me_from_node = from_node m, me_to_node = to_node m,
             me_message_type = message_type m, me_data = msg_data m,
             me_schema = msg_schema m, me_status = ''processing'',
             me_created_at = rd_created rd, me_steps = pl_steps l,
             me_transformed_data = None, me_signature = None, me_ledger_entry_id = None,
             me_completed_at = None, me_error = None, me_failed_at = None\<rparr>
      in case raised of
           None \<Rightarrow>
             entry\<lparr>me_status := ''completed'',
                   me_transformed_data := Some (pl_transformed_data l),
                   me_signature := Some (pl_signature l),
                   me_ledger_entry_id := pl_ledger_entry_id l,
                   me_completed_at := Some (rd_end rd)\<rparr>
         | Some e \<Rightarrow>
             entry\<lparr>me_status := ''failed'', me_error := Some e,
                   me_failed_at := Some (rd_end rd)\<rparr>)"

text \<open>
  \<^verbatim>\<open>send_message\<close>. The entry is appended to \<^verbatim>\<open>message_queue\<close> before the response is built;
  building the response reads the local \<^verbatim>\<open>ledger_entry_id\<close>, which is unassigned when the
  transform or the sign step raised.
\<close>

definition send_message ::
  "'w gateway_env \<Rightarrow> send_readings \<Rightarrow> RouteRequest \<Rightarrow> gateway_state \<times> 'w
     \<Rightarrow> (exn + send_response) \<times> gateway_state \<times> 'w" where
  "send_message env rd route_request = (\<lambda>(g, w).
     if map_of (registered_nodes g) (from_node (message route_request)) = None then
       (Inl (HTTPException 404 ''From node not registered''), g, w)
     else if map_of (registered_nodes g) (to_node (message route_request)) = None then
       (Inl (HTTPException 404 ''To node not registered''), g, w)
     else
       (case pipeline env rd route_request g w of
          (raised, l, w1) \<Rightarrow>
            (let message_entry = finish_entry env rd route_request raised l;
                 g1 = g\<lparr>message_queue := message_queue g @ [message_entry]\<rparr>
             in case pl_ledger_entry_id l of
                  None \<Rightarrow> (Inl (UnboundLocalError ''ledger_entry_id''), g1, w1)
                | Some ledger_entry_id \<Rightarrow>
                    (Inr \<lparr>sp_message_id = rd_message_id rd,
                          sp_status = me_status message_entry,
                          sp_hash = message_hash_of env (message route_request),
                          sp_steps = me_steps message_entry,
                          sp_ledger_entry_id = ledger_entry_id\<rparr>,
                     g1, w1))))"

text \<open>The message entry a call of \<^verbatim>\<open>send_message\<close> appended: the last one of the queue.\<close>

definition recorded_entry :: "(exn + send_response) \<times> gateway_state \<times> 'w \<Rightarrow> message_entry" where
  "recorded_entry result = last (message_queue (fst (snd result)))"



subsection \<open>Behaviours of a collaborator\<close>








subsection \<open>Scripted collaborators\<close>

text \<open>
  A collaborator whose answer depends on the URL alone; its state counts the calls made
  to it. \<open>demo_dumps\<close> renders a JSON value as text and stands in for \<^verbatim>\<open>json.dumps\<close>.
\<close>

fun demo_dumps :: "json \<Rightarrow> string" where
  "demo_dumps JNull = ''null''"
| "demo_dumps (JBool b) = (if b then ''true'' else ''false'')"
| "demo_dumps (JNum n) = (if n = 0 then ''0'' else ''n'')"
| "demo_dumps (JStr s) = CHR 0x22 # s @ [CHR 0x22]"
| "demo_dumps (JArr xs) = ''['' @ concat (map (\<lambda>x. demo_dumps x @ '','') xs) @ '']''"
| "demo_dumps (JObj kvs) =
     ''{'' @ concat (map (\<lambda>(k, v). CHR 0x22 # k @ [CHR 0x22] @ '':'' @ demo_dumps v @ '','') kvs)
       @ ''}''"

definition scripted_env :: "(string \<Rightarrow> http_result) \<Rightarrow> nat gateway_env" where
  "scripted_env answer =
     \<lparr>http_post = (\<lambda>url body calls. (answer url, Suc calls)),
      dumps_sorted = demo_dumps,
      sha256_hexdigest = (\<lambda>s. ''h'' @ s)\<rparr>"



text \<open>
  A collaborator scripted by a table from URLs to results (404 for a URL the table lacks),
  a gateway state with two registered nodes, of which \<open>A\<close> has a stored private key, the
  readings of one call and two requests: one with every optional step switched off, one
  that asks for a transform and for the commit.
\<close>

definition table_env :: "(string \<times> http_result) list \<Rightarrow> nat gateway_env" where
  "table_env table =
     scripted_env (\<lambda>url. case map_of table url of None \<Rightarrow> Response 404 None | Some r \<Rightarrow> r)"

definition demo_node :: "string \<Rightarrow> json \<Rightarrow> node_record" where
  "demo_node node_id key =
     \<lparr>nr_node_id = node_id, nr_node_type = ''ai'', nr_capabilities = [], nr_endpoint = None,
      nr_public_key = JStr ''bk'', nr_private_key = key, nr_registered_at = 0,
      nr_status = ''active''\<rparr>"

definition demo_gateway :: "json \<Rightarrow> gateway_state" where
  "demo_gateway key =
     \<lparr>registered_nodes = [(''A'', demo_node ''A'' key), (''B'', demo_node ''B'' JNull)],
      message_queue = [], routing_table = []\<rparr>"

definition demo_readings :: send_readings where
  "demo_readings =
     \<lparr>rd_message_id = ''m1'', rd_created = 1, rd_transform = 2, rd_sign = 3, rd_commit = 4,
      rd_end = 5\<rparr>"

definition demo_message :: Message where
  "demo_message =
     \<lparr>from_node = ''A'', to_node = ''B'', message_type = ''ping'',
      msg_data = [(''x'', JNum 1)], msg_schema = Some ''s1''\<rparr>"

definition plain_request :: RouteRequest where
  "plain_request = \<lparr>message = demo_message, transform_schema = None, commit_to_ledger = False\<rparr>"

definition full_request :: RouteRequest where
  "full_request = \<lparr>message = demo_message, transform_schema = Some ''s2'', commit_to_ledger = True\<rparr>"




section \<open>Properties of the ledger service\<close>

subsection \<open>Block heights and the append-only discipline\<close>

lemma ledger_run_snoc: "ledger_run c (ops @ [op]) st = ledger_step c op (ledger_run c ops st)"
  by (simp add: ledger_run_def)

lemma ledger_run_append: "ledger_run c (ops @ ops') st = ledger_run c ops' (ledger_run c ops st)"
  by (simp add: ledger_run_def)

lemma step_entries_other:
  "\<not> is_append op \<Longrightarrow> ledger_entries (ledger_step c op st) = ledger_entries st"
  by (cases op)
     (simp_all add: register_node_def store_key_def get_registered_nodes_def sign_data_def
        verify_signature_def get_ledger_def get_ledger_entry_def get_metrics_def
        split: option.splits sum.splits)

lemma step_entries_append:
  "is_append op \<Longrightarrow>
     \<exists>x. ledger_entries (ledger_step c op st) = ledger_entries st @ [x]
        \<and> le_block_height x = length (ledger_entries st)"
  by (cases op) (simp_all add: append_to_ledger_def Let_def)

lemma run_heights:
  "map le_block_height (ledger_entries (ledger_run c ops ledger_init)) = [0..<length (filter is_append ops)]"
proof (induction ops rule: rev_induct)
  case Nil
  then show ?case by (simp add: ledger_run_def ledger_init_def)
next
  case (snoc op ops)
  show ?case
  proof (cases "is_append op")
    case True
    from step_entries_append [OF True, of c "ledger_run c ops ledger_init"]
    obtain x where x: "ledger_entries (ledger_step c op (ledger_run c ops ledger_init)) =
        ledger_entries (ledger_run c ops ledger_init) @ [x]"
      "le_block_height x = length (ledger_entries (ledger_run c ops ledger_init))" by blast
    have "length (ledger_entries (ledger_run c ops ledger_init)) = length (filter is_append ops)"
      using snoc.IH by (metis length_map length_upt minus_nat.diff_0)
    with x snoc.IH True show ?thesis by (simp add: ledger_run_snoc)
  next
    case False
    with snoc.IH show ?thesis by (simp add: ledger_run_snoc step_entries_other)
  qed
qed

lemma step_prefix: "take (length (ledger_entries st)) (ledger_entries (ledger_step c op st)) = ledger_entries st"
proof (cases "is_append op")
  case True
  from step_entries_append [OF True, of c st] show ?thesis by auto
next
  case False
  then show ?thesis by (simp add: step_entries_other)
qed

lemma run_prefix:
  "take (length (ledger_entries st)) (ledger_entries (ledger_run c ops st)) = ledger_entries st"
proof (induction ops rule: rev_induct)
  case Nil
  then show ?case by (simp add: ledger_run_def)
next
  case (snoc op ops)
  let ?m = "ledger_run c ops st"
  have le: "length (ledger_entries st) \<le> length (ledger_entries ?m)"
    using snoc.IH by (metis length_take min.cobounded1 min.commute)
  have "take (length (ledger_entries st)) (ledger_entries (ledger_step c op ?m))
      = take (length (ledger_entries st)) (take (length (ledger_entries ?m)) (ledger_entries (ledger_step c op ?m)))"
    using le by (simp add: min_def)
  also have "\<dots> = take (length (ledger_entries st)) (ledger_entries ?m)"
    by (simp only: step_prefix)
  finally show ?case using snoc.IH by (simp add: ledger_run_snoc)
qed

text \<open>
  C1. After any sequence of requests to the ledger, started from the empty ledger, the block
  heights of the stored entries are \<open>0, 1, ..., N - 1\<close> in storage order, where \<open>N\<close> is the
  number of appends among the requests; the next append answers with block height \<open>N\<close>; and
  whatever requests follow, the entries stored so far stay an unchanged prefix of the ledger.
\<close>

theorem ledger_block_heights_gapless:
  "map le_block_height (ledger_entries (ledger_run c ops ledger_init))
     = [0..<length (filter is_append ops)]
   \<and> (case fst (append_to_ledger c entry_id now entry (ledger_run c ops ledger_init)) of
        Inl e \<Rightarrow> False
      | Inr r \<Rightarrow> ar_block_height r = length (filter is_append ops))
   \<and> take (length (ledger_entries (ledger_run c ops ledger_init)))
        (ledger_entries (ledger_run c (ops @ ops') ledger_init))
     = ledger_entries (ledger_run c ops ledger_init)"
proof -
  let ?st = "ledger_run c ops ledger_init"
  have heights: "map le_block_height (ledger_entries ?st) = [0..<length (filter is_append ops)]"
    by (rule run_heights)
  then have len: "length (ledger_entries ?st) = length (filter is_append ops)"
    by (metis length_map length_upt minus_nat.diff_0)
  have app: "(case fst (append_to_ledger c entry_id now entry ?st) of
        Inl e \<Rightarrow> False
      | Inr r \<Rightarrow> ar_block_height r = length (filter is_append ops))"
    by (simp add: append_to_ledger_def Let_def len)
  have pre: "take (length (ledger_entries ?st)) (ledger_entries (ledger_run c (ops @ ops') ledger_init))
     = ledger_entries ?st"
    by (simp add: ledger_run_append run_prefix)
  from heights app pre show ?thesis by blast
qed

theorem ledger_block_heights_gapless_witness:
  "map le_block_height (ledger_entries (ledger_run demo_crypto
       [Register CHR ''k'' 1 \<lparr>reg_node_id = ''n1'', reg_public_key = None\<rparr>,
        Append ''id0'' 2 \<lparr>entry_data = ''x'', entry_node_id = ''n1'', entry_signature = None\<rparr>,
        Sign \<lparr>sign_data_of = ''y'', sign_node_id = ''n1''\<rparr>,
        Append ''id1'' 3 \<lparr>entry_data = ''y'', entry_node_id = ''n1'', entry_signature = Some ''bky''\<rparr>]
       ledger_init)) = [0, 1]"
  using ledger_block_heights_gapless [of demo_crypto
       "[Register CHR ''k'' 1 \<lparr>reg_node_id = ''n1'', reg_public_key = None\<rparr>,
        Append ''id0'' 2 \<lparr>entry_data = ''x'', entry_node_id = ''n1'', entry_signature = None\<rparr>,
        Sign \<lparr>sign_data_of = ''y'', sign_node_id = ''n1''\<rparr>,
        Append ''id1'' 3 \<lparr>entry_data = ''y'', entry_node_id = ''n1'', entry_signature = Some ''bky''\<rparr>]"]
  by (simp add: upt_rec)

subsection \<open>Appending never rejects\<close>





subsection \<open>Signing and then appending\<close>

lemma key_inv_init: "key_inv c ledger_init"
  by (simp add: key_inv_def ledger_init_def)

lemma step_keys_other:
  "\<forall>fresh now registration. op \<noteq> Register fresh now registration \<Longrightarrow>
     node_keys (ledger_step c op st) = node_keys st"
  by (cases op)
     (simp_all add: get_registered_nodes_def sign_data_def append_to_ledger_def Let_def
        verify_signature_def get_ledger_def get_ledger_entry_def get_metrics_def
        split: option.splits sum.splits)

lemma key_inv_register:
  assumes "key_inv c st"
  shows "key_inv c (snd (register_node c fresh now registration st))"
  using assms
  by (auto simp add: key_inv_def register_node_def store_key_def update_conv'
        split: option.splits sum.splits if_splits)

lemma key_inv_step: "key_inv c st \<Longrightarrow> key_inv c (ledger_step c op st)"
proof (cases "\<exists>fresh now registration. op = Register fresh now registration")
  case True
  assume "key_inv c st"
  with True show ?thesis by (auto simp add: key_inv_register)
next
  case False
  assume inv: "key_inv c st"
  from False have "node_keys (ledger_step c op st) = node_keys st"
    by (intro step_keys_other) blast
  with inv show ?thesis by (simp add: key_inv_def)
qed

lemma key_inv_run: "key_inv c st \<Longrightarrow> key_inv c (ledger_run c ops st)"
  by (induction ops rule: rev_induct) (simp_all add: ledger_run_def key_inv_step)

lemma sign_then_append_inv:
  assumes ok: "crypto_ok c" and inv: "key_inv c st"
    and reg: "map_of (node_keys st) nid = Some info" and priv: "private_key info = Some s"
  shows "\<exists>sg. sign_data c \<lparr>sign_data_of = dat, sign_node_id = nid\<rparr> st
           = (Inr \<lparr>sr_data = dat, sr_signature = sg, sr_node_id = nid\<rparr>, st)
         \<and> append_verified c \<lparr>entry_data = dat, entry_node_id = nid, entry_signature = Some sg\<rparr> st"
proof -
  from inv reg priv obtain sk where
    s: "s = b64encode c (private_bytes c sk)" and
    p: "public_key info = b64encode c (public_bytes c (public_key_of c sk))"
    unfolding key_inv_def by blast
  from ok have dec: "\<And>b. b64decode c (b64encode c b) = Some b"
    and fpriv: "\<And>k. from_private_bytes c (private_bytes c k) = Some k"
    and fpub: "\<And>k. from_public_bytes c (public_bytes c k) = Some k"
    and lpriv: "\<And>k. b64encode c (private_bytes c k) \<noteq> []"
    and lsig: "\<And>k m. b64encode c (sign c k m) \<noteq> []"
    and ver: "\<And>k m. verify c (public_key_of c k) (sign c k m) m"
    unfolding crypto_ok_def by blast+
  have s_ne: "s \<noteq> []"
    using lpriv [of sk] by (simp add: s)
  have sg_ne: "b64encode c (sign c sk dat) \<noteq> []"
    by (rule lsig)
  have sgn: "try_sign c s dat = Inr (b64encode c (sign c sk dat))"
    by (simp add: try_sign_def s dec fpriv)
  have vfy: "try_verify c (public_key info) (b64encode c (sign c sk dat)) dat = Inr ()"
    by (simp add: try_verify_def p dec fpub ver)
  have "sign_data c \<lparr>sign_data_of = dat, sign_node_id = nid\<rparr> st
           = (Inr \<lparr>sr_data = dat, sr_signature = b64encode c (sign c sk dat), sr_node_id = nid\<rparr>, st)"
    using s_ne by (simp add: sign_data_def reg priv sgn)
  moreover have "append_verified c \<lparr>entry_data = dat, entry_node_id = nid,
       entry_signature = Some (b64encode c (sign c sk dat))\<rparr> st"
    using sg_ne by (simp add: append_verified_def reg vfy)
  ultimately show ?thesis by blast
qed

text \<open>
  C5. In every state the ledger reaches from the empty one, for a registered node with a
  stored private key and any data string, \<^verbatim>\<open>sign_data\<close> returns a signature, and appending
  that data with that signature for that node yields an entry with \<^verbatim>\<open>verified\<close> true.
\<close>

theorem sign_then_append_verified:
  assumes "crypto_ok c"
    and "map_of (node_keys (ledger_run c ops ledger_init)) nid = Some info"
    and "private_key info = Some s"
  shows "\<exists>sg. sign_data c \<lparr>sign_data_of = dat, sign_node_id = nid\<rparr> (ledger_run c ops ledger_init)
           = (Inr \<lparr>sr_data = dat, sr_signature = sg, sr_node_id = nid\<rparr>, ledger_run c ops ledger_init)
         \<and> (case fst (append_to_ledger c entry_id now
                  \<lparr>entry_data = dat, entry_node_id = nid, entry_signature = Some sg\<rparr>
                  (ledger_run c ops ledger_init)) of
              Inl e \<Rightarrow> False | Inr r \<Rightarrow> ar_verified r)
         \<and> le_verified (last (ledger_entries (snd (append_to_ledger c entry_id now
                  \<lparr>entry_data = dat, entry_node_id = nid, entry_signature = Some sg\<rparr>
                  (ledger_run c ops ledger_init)))))"
proof -
  have "key_inv c (ledger_run c ops ledger_init)"
    by (simp add: key_inv_run key_inv_init)
  from sign_then_append_inv [OF assms(1) this assms(2) assms(3), of dat]
  show ?thesis by (auto simp add: append_to_ledger_def Let_def)
qed

theorem sign_then_append_verified_witness:
  "crypto_ok demo_crypto
   \<and> map_of (node_keys (ledger_run demo_crypto
        [Register CHR ''k'' 1 \<lparr>reg_node_id = ''n1'', reg_public_key = None\<rparr>] ledger_init)) ''n1''
      = Some \<lparr>public_key = ''bk'', private_key = Some ''bk'', registered_at = 1\<rparr>
   \<and> sign_data demo_crypto \<lparr>sign_data_of = ''msg'', sign_node_id = ''n1''\<rparr>
        (ledger_run demo_crypto
          [Register CHR ''k'' 1 \<lparr>reg_node_id = ''n1'', reg_public_key = None\<rparr>] ledger_init)
      = (Inr \<lparr>sr_data = ''msg'', sr_signature = ''bkmsg'', sr_node_id = ''n1''\<rparr>,
         ledger_run demo_crypto
          [Register CHR ''k'' 1 \<lparr>reg_node_id = ''n1'', reg_public_key = None\<rparr>] ledger_init)
   \<and> fst (append_to_ledger demo_crypto ''id0'' 2
        \<lparr>entry_data = ''msg'', entry_node_id = ''n1'', entry_signature = Some ''bkmsg''\<rparr>
        (ledger_run demo_crypto
          [Register CHR ''k'' 1 \<lparr>reg_node_id = ''n1'', reg_public_key = None\<rparr>] ledger_init))
      = Inr \<lparr>ar_entry_id = ''id0'', ar_block_height = 0, ar_verified = True,
             ar_data_hash = ''hmsg''\<rparr>"
proof -
  let ?st = "ledger_run demo_crypto
          [Register CHR ''k'' 1 \<lparr>reg_node_id = ''n1'', reg_public_key = None\<rparr>] ledger_init"
  have ok: "crypto_ok demo_crypto"
    by (simp add: crypto_ok_def demo_crypto_def)
  have reg: "map_of (node_keys ?st) ''n1''
      = Some \<lparr>public_key = ''bk'', private_key = Some ''bk'', registered_at = 1\<rparr>"
    by (simp add: ledger_run_def ledger_init_def register_node_def store_key_def demo_crypto_def)
  have priv: "private_key \<lparr>public_key = ''bk'', private_key = Some ''bk'', registered_at = 1\<rparr>
      = Some ''bk''"
    by simp
  from sign_then_append_verified [OF ok reg priv, of "''msg''" "''id0''" 2]
  have "\<exists>sg. sign_data demo_crypto \<lparr>sign_data_of = ''msg'', sign_node_id = ''n1''\<rparr> ?st
           = (Inr \<lparr>sr_data = ''msg'', sr_signature = sg, sr_node_id = ''n1''\<rparr>, ?st)
         \<and> (case fst (append_to_ledger demo_crypto ''id0'' 2
                  \<lparr>entry_data = ''msg'', entry_node_id = ''n1'', entry_signature = Some sg\<rparr> ?st) of
              Inl e \<Rightarrow> False | Inr r \<Rightarrow> ar_verified r)"
    by blast
  then have "sign_data demo_crypto \<lparr>sign_data_of = ''msg'', sign_node_id = ''n1''\<rparr> ?st
      = (Inr \<lparr>sr_data = ''msg'', sr_signature = ''bkmsg'', sr_node_id = ''n1''\<rparr>, ?st)
   \<and> fst (append_to_ledger demo_crypto ''id0'' 2
        \<lparr>entry_data = ''msg'', entry_node_id = ''n1'', entry_signature = Some ''bkmsg''\<rparr> ?st)
      = Inr \<lparr>ar_entry_id = ''id0'', ar_block_height = 0, ar_verified = True,
             ar_data_hash = ''hmsg''\<rparr>"
    by (auto simp add: sign_data_def try_sign_def append_to_ledger_def Let_def
          append_verified_def try_verify_def ledger_run_def ledger_init_def register_node_def
          store_key_def demo_crypto_def)
  with ok reg show ?thesis by blast
qed

subsection \<open>Registering a node id again\<close>

text \<open>
  C9, as stated, fails: registering an already registered node id with a supplied public key
  that does not decode is answered with 400 and leaves the stored key pair as it was.
\<close>

theorem reregister_invalid_key_counterexample:
  "map_of (node_keys (ledger_run demo_crypto
        [Register CHR ''k'' 1 \<lparr>reg_node_id = ''n1'', reg_public_key = None\<rparr>] ledger_init)) ''n1''
      = Some \<lparr>public_key = ''bk'', private_key = Some ''bk'', registered_at = 1\<rparr>
   \<and> register_node demo_crypto CHR ''q'' 2 \<lparr>reg_node_id = ''n1'', reg_public_key = Some ''AAAA''\<rparr>
        (ledger_run demo_crypto
          [Register CHR ''k'' 1 \<lparr>reg_node_id = ''n1'', reg_public_key = None\<rparr>] ledger_init)
      = (Inl (HTTPException 400 ''Invalid public key''),
         ledger_run demo_crypto
          [Register CHR ''k'' 1 \<lparr>reg_node_id = ''n1'', reg_public_key = None\<rparr>] ledger_init)"
  by (simp add: ledger_run_def ledger_init_def register_node_def store_key_def demo_crypto_def
        decode_public_key_def)

text \<open>
  C9, amended. Registering an already registered node id fails exactly when a non-empty
  public key is supplied that does not decode to a key (status 400, state unchanged), as a
  first registration would. Otherwise it succeeds and replaces the stored key pair by the
  newly generated or newly supplied key, and later \<^verbatim>\<open>verify_signature\<close> and \<^verbatim>\<open>sign_data\<close>
  calls for that node id work with the new key.
\<close>

theorem reregister_replaces_key:
  assumes "map_of (node_keys st) (reg_node_id registration) = Some old"
  shows "((\<exists>e. fst (register_node c fresh now registration st) = Inl e) \<longleftrightarrow>
            (\<exists>supplied e. if_truthy (reg_public_key registration) = Some supplied
                \<and> decode_public_key c supplied = Inl e))
       \<and> (\<forall>e. fst (register_node c fresh now registration st) = Inl e \<longrightarrow>
            e = HTTPException 400 ''Invalid public key''
            \<and> snd (register_node c fresh now registration st) = st)
       \<and> (\<forall>r. fst (register_node c fresh now registration st) = Inr r \<longrightarrow>
            map_of (node_keys (snd (register_node c fresh now registration st)))
                (reg_node_id registration)
              = Some \<lparr>public_key = rr_public_key r, private_key = rr_private_key r,
                      registered_at = now\<rparr>
            \<and> ledger_entries (snd (register_node c fresh now registration st)) = ledger_entries st
            \<and> (if_truthy (reg_public_key registration) = None \<longrightarrow>
                 rr_public_key r = b64encode c (public_bytes c (public_key_of c fresh))
                 \<and> rr_private_key r = Some (b64encode c (private_bytes c fresh)))
            \<and> (\<forall>supplied pk. if_truthy (reg_public_key registration) = Some supplied
                   \<and> decode_public_key c supplied = Inr pk \<longrightarrow>
                 rr_public_key r = b64encode c (public_bytes c pk) \<and> rr_private_key r = None)
            \<and> fst (verify_signature c dat sg (reg_node_id registration)
                     (snd (register_node c fresh now registration st)))
              = Inr \<lparr>vr_valid = (try_verify c (rr_public_key r) sg dat = Inr ()),
                     vr_node_id = reg_node_id registration\<rparr>
            \<and> fst (sign_data c \<lparr>sign_data_of = dat, sign_node_id = reg_node_id registration\<rparr>
                     (snd (register_node c fresh now registration st)))
              = (case if_truthy (rr_private_key r) of
                   None \<Rightarrow> Inl (HTTPException 400 ''Private key not available for this node'')
                 | Some private_key_b64 \<Rightarrow>
                     (case try_sign c private_key_b64 dat of
                        Inl e \<Rightarrow> Inl (HTTPException 500 ''Signing failed'')
                      | Inr signature_b64 \<Rightarrow>
                          Inr \<lparr>sr_data = dat, sr_signature = signature_b64,
                               sr_node_id = reg_node_id registration\<rparr>)))"
proof (cases "if_truthy (reg_public_key registration)")
  case None
  then show ?thesis
    by (simp add: register_node_def store_key_def update_conv' verify_signature_def sign_data_def
          split: sum.splits)
next
  case (Some supplied)
  show ?thesis
  proof (cases "decode_public_key c supplied")
    case (Inl e)
    with Some show ?thesis by (simp add: register_node_def)
  next
    case (Inr pk)
    with Some show ?thesis
      by (simp add: register_node_def store_key_def update_conv' verify_signature_def
            sign_data_def split: sum.splits)
  qed
qed

theorem reregister_replaces_key_witness:
  "map_of (node_keys (ledger_run demo_crypto
        [Register CHR ''k'' 1 \<lparr>reg_node_id = ''n1'', reg_public_key = None\<rparr>] ledger_init))
      (reg_node_id \<lparr>reg_node_id = ''n1'', reg_public_key = None\<rparr>)
      = Some \<lparr>public_key = ''bk'', private_key = Some ''bk'', registered_at = 1\<rparr>
   \<and> fst (register_node demo_crypto CHR ''q'' 2 \<lparr>reg_node_id = ''n1'', reg_public_key = None\<rparr>
        (ledger_run demo_crypto
          [Register CHR ''k'' 1 \<lparr>reg_node_id = ''n1'', reg_public_key = None\<rparr>] ledger_init))
      = Inr \<lparr>rr_node_id = ''n1'', rr_public_key = ''bq'', rr_private_key = Some ''bq'',
             rr_status = ''registered''\<rparr>
   \<and> map_of (node_keys (snd (register_node demo_crypto CHR ''q'' 2
          \<lparr>reg_node_id = ''n1'', reg_public_key = None\<rparr>
          (ledger_run demo_crypto
            [Register CHR ''k'' 1 \<lparr>reg_node_id = ''n1'', reg_public_key = None\<rparr>] ledger_init))))
        ''n1''
      = Some \<lparr>public_key = ''bq'', private_key = Some ''bq'', registered_at = 2\<rparr>"
proof -
  let ?reg = "\<lparr>reg_node_id = ''n1'', reg_public_key = None\<rparr>"
  let ?st = "ledger_run demo_crypto [Register CHR ''k'' 1 ?reg] ledger_init"
  have old: "map_of (node_keys ?st) (reg_node_id ?reg)
      = Some \<lparr>public_key = ''bk'', private_key = Some ''bk'', registered_at = 1\<rparr>"
    by (simp add: ledger_run_def ledger_init_def register_node_def store_key_def demo_crypto_def)
  have res: "fst (register_node demo_crypto CHR ''q'' 2 ?reg ?st)
      = Inr \<lparr>rr_node_id = ''n1'', rr_public_key = ''bq'', rr_private_key = Some ''bq'',
             rr_status = ''registered''\<rparr>"
    by (simp add: register_node_def store_key_def demo_crypto_def)
  from reregister_replaces_key [OF old, of demo_crypto "CHR ''q''" 2] res
  have "map_of (node_keys (snd (register_node demo_crypto CHR ''q'' 2 ?reg ?st))) (reg_node_id ?reg)
      = Some \<lparr>public_key = ''bq'', private_key = Some ''bq'', registered_at = 2\<rparr>"
    by simp
  with old res show ?thesis by simp
qed

section \<open>Properties of the translator service\<close>







section \<open>Properties of the gateway service\<close>

subsection \<open>The steps of the pipeline\<close>


























































lemmas run_defs =
  send_message_def pipeline_def and_then_def transform_step_def sign_step_def commit_step_def
  notify_step_def finish_entry_def recorded_entry_def table_env_def scripted_env_def
  demo_gateway_def demo_node_def demo_readings_def demo_message_def plain_request_def
  full_request_def TRANSLATOR_URL_def LEDGER_URL_def initial_locals_def message_hash_of_def
  completed_step_def Let_def

subsection \<open>Unregistered nodes\<close>

text \<open>
  C6. A submission whose sender or receiver is not registered is answered with 404 before
  anything else happens: the gateway state (the message queue included) and the state of the
  collaborators are as they were, so no entry was created and no call was made.
\<close>

theorem send_message_unregistered_rejected:
  assumes "map_of (registered_nodes g) (from_node (message rr)) = None
         \<or> map_of (registered_nodes g) (to_node (message rr)) = None"
  shows "\<exists>detail. send_message env rd rr (g, w) = (Inl (HTTPException 404 detail), g, w)"
  using assms by (auto simp add: send_message_def)

theorem send_message_unregistered_rejected_witness:
  "(map_of (registered_nodes gateway_init) (from_node (message full_request)) = None
      \<or> map_of (registered_nodes gateway_init) (to_node (message full_request)) = None)
   \<and> (\<exists>detail. send_message (table_env []) demo_readings full_request (gateway_init, 0)
         = (Inl (HTTPException 404 detail), gateway_init, 0))"
proof -
  have h: "map_of (registered_nodes gateway_init) (from_node (message full_request)) = None
      \<or> map_of (registered_nodes gateway_init) (to_node (message full_request)) = None"
    by (simp add: gateway_init_def)
  from send_message_unregistered_rejected [OF h, of "table_env []" demo_readings 0] h
  show ?thesis by blast
qed

subsection \<open>Failures of the transform, sign and notify steps\<close>




text \<open>
  When the call that raises is the transform (or the sign) call, the entry is appended as
  \<^verbatim>\<open>failed\<close> and the handler then leaves through an exception of its own, because the
  response reads the local \<^verbatim>\<open>ledger_entry_id\<close> that the commit step never assigned.
\<close>

lemma transform_raise_then_unbound_local:
  "send_message
      (table_env [(TRANSLATOR_URL @ ''/transform'', Raises (TransportError ''timed out''))])
      demo_readings full_request (demo_gateway JNull, 0)
   = (Inl (UnboundLocalError ''ledger_entry_id''),
      (demo_gateway JNull)\<lparr>message_queue :=
         [\<lparr>me_id = ''m1'', me_hash = message_hash_of (table_env []) demo_message,
           me_from_node = ''A'', me_to_node = ''B'', me_message_type = ''ping'',
           me_data = [(''x'', JNum 1)], me_schema = Some ''s1'', me_status = ''failed'',
           me_created_at = 1, me_steps = [], me_transformed_data = None, me_signature = None,
           me_ledger_entry_id = None, me_completed_at = None,
           me_error = Some (TransportError ''timed out''), me_failed_at = Some 5\<rparr>]\<rparr>,
      1)"
  by (simp add: run_defs)

subsection \<open>Failure of the commit step\<close>




subsection \<open>Key material in the gateway\<close>




end
